theory Spec2Isabelle
  imports Complex_Main "HOL-Library.AList" "HOL-Library.Multiset"
begin

section \<open>Data model (journal/models.py)\<close>

text \<open>
  The analytics engine reads three tables through the ORM: users, mistakes and trades.
  Each row is a record; nullable columns are options; the many-to-many relation between
  trades and mistakes is the list of mistake keys linked to the trade. Columns the reports
  never read (symbol, notes, description) are left out.

  Numbers: \<open>DecimalField\<close> values are modelled by exact rationals, and so are the
  quotients the reports compute (Python floats for the rates, \<open>Decimal\<close>s for the
  averages): the rounding of floats and of the decimal context is not modelled. Counts are
  natural numbers; timestamps are integers.
\<close>

datatype side = Buy | Sell

datatype category =
  Entry | Exit | Position | Risk | Psychology | Analysis | Execution | Other

record mistake =
  mistake_pk :: nat
  name :: string
  category :: category

record trade =
  trade_pk :: nat
  user :: nat
  side :: side
  quantity :: rat
  entry_price :: rat
  entry_date :: int
  exit_price :: "rat option"
  exit_date :: "int option"
  mistakes :: "nat list"

record account =
  account_pk :: nat
  username :: string

text \<open>
  The database as the managers enumerate it: \<open>User.objects.all()\<close>,
  \<open>Trade.objects.all()\<close> and \<open>Mistake.objects.all()\<close>, each in its enumeration order.
\<close>

record database =
  user_objects :: "account list"
  trade_objects :: "trade list"
  mistake_objects :: "mistake list"

text \<open>\<open>user.trades.all()\<close>: the trades whose foreign key is the user.\<close>

definition user_trades :: "database \<Rightarrow> account \<Rightarrow> trade list" where
  "user_trades db u = filter (\<lambda>t. user t = account_pk u) (trade_objects db)"

text \<open>\<open>Mistake.get_category_display\<close>: the label of the category code.\<close>

fun get_category_display :: "category \<Rightarrow> string" where
  "get_category_display Entry = ''Entry Timing''"
| "get_category_display Exit = ''Exit Timing''"
| "get_category_display Position = ''Position Sizing''"
| "get_category_display Risk = ''Risk Management''"
| "get_category_display Psychology = ''Psychology/Emotion''"
| "get_category_display Analysis = ''Analysis/Research''"
| "get_category_display Execution = ''Trade Execution''"
| "get_category_display Other = ''Other''"

text \<open>
  \<open>Trade.pnl\<close>: \<open>None\<close> when the exit price is missing, otherwise the directional
  profit. The property looks at the exit price only.
\<close>

definition pnl :: "trade \<Rightarrow> rat option" where
  "pnl t =
     (case exit_price t of
        None \<Rightarrow> None
      | Some xp \<Rightarrow>
          if side t = Buy then Some ((xp - entry_price t) * quantity t)
          else Some ((entry_price t - xp) * quantity t))"

text \<open>\<open>Trade.is_closed\<close>: both exit columns are set.\<close>

definition is_closed :: "trade \<Rightarrow> bool" where
  "is_closed t \<longleftrightarrow> exit_price t \<noteq> None \<and> exit_date t \<noteq> None"

text \<open>
  The consistency rule of \<open>Trade.clean\<close> (and of the form's \<open>clean\<close>): exit price and
  exit date are given together or not at all. Saving through the ORM does not run it, so
  it is a predicate on trades, not part of the type.
\<close>

definition exit_consistent :: "trade \<Rightarrow> bool" where
  "exit_consistent t \<longleftrightarrow> (exit_price t = None \<longleftrightarrow> exit_date t = None)"

section \<open>Python and ORM primitives\<close>

datatype error = DoesNotExist | MultipleObjectsReturned | ZeroDivisionError

text \<open>Sequencing of computations that may raise.\<close>

definition and_then :: "error + 'a \<Rightarrow> ('a \<Rightarrow> error + 'b) \<Rightarrow> error + 'b" where
  "and_then r f = (case r of Inl e \<Rightarrow> Inl e | Inr v \<Rightarrow> f v)"

text \<open>Python's \<open>/\<close>: raises on a zero divisor.\<close>

definition truediv :: "rat \<Rightarrow> rat \<Rightarrow> error + rat" where
  "truediv a b = (if b = 0 then Inl ZeroDivisionError else Inr (a / b))"

text \<open>\<open>queryset.exclude(cond)\<close> keeps the rows that do not satisfy the condition.\<close>

definition exclude :: "('a \<Rightarrow> bool) \<Rightarrow> 'a list \<Rightarrow> 'a list" where
  "exclude P qs = filter (\<lambda>x. \<not> P x) qs"

text \<open>\<open>sum((trade.pnl or 0) for trade in queryset)\<close>.\<close>

definition pnl_or_0 :: "trade \<Rightarrow> rat" where
  "pnl_or_0 t = (case pnl t of None \<Rightarrow> 0 | Some p \<Rightarrow> if p = 0 then 0 else p)"

definition sum_pnl :: "trade list \<Rightarrow> rat" where
  "sum_pnl qs = sum_list (map pnl_or_0 qs)"

text \<open>
  \<open>.exclude(exit_price__isnull=True).exclude(exit_date__isnull=True)\<close> and
  \<open>.filter(Q(exit_price__isnull=True) | Q(exit_date__isnull=True))\<close>.
\<close>

definition closed_of :: "trade list \<Rightarrow> trade list" where
  "closed_of qs =
     exclude (\<lambda>t. exit_date t = None) (exclude (\<lambda>t. exit_price t = None) qs)"

definition open_of :: "trade list \<Rightarrow> trade list" where
  "open_of qs = filter (\<lambda>t. exit_price t = None \<or> exit_date t = None) qs"

section \<open>Report output\<close>

text \<open>
  Each \<open>stdout.write\<close> (or \<open>print\<close>) is one line of output. A line keeps the values
  that the format string interpolates, before they are rounded for display.
\<close>

datatype line =
    Text string
  | UserNotFound string
  | TotalTrades nat
  | ClosedTrades nat rat
  | OpenTrades nat rat
  | AverageClosedPnl rat
  | ComplianceRate rat
  | EmotionalTrades nat nat nat rat
  | NonEmotionalTrades nat nat nat rat
  | WinRateDifference rat
  | MistakeHeader nat string string
  | MistakeDetail nat rat rat
  | NoMistakes
  | CategoryLine string nat rat

section \<open>Rule-compliance report (rule_followed_analysis)\<close>

definition rule_followed_analysis :: "database \<Rightarrow> account \<Rightarrow> error + line list" where
  "rule_followed_analysis db u =
     (let trades = user_trades db u;
          closed_trades = closed_of trades;
          closed_count = length closed_trades;
          closed_pnl = sum_pnl closed_trades;
          open_trades = open_of trades;
          open_count = length open_trades;
          open_pnl = sum_pnl open_trades;
          out = [ClosedTrades closed_count closed_pnl, OpenTrades open_count open_pnl]
      in and_then
           (if closed_count > 0
            then and_then (truediv closed_pnl (of_nat closed_count))
                   (\<lambda>avg_closed_pnl. Inr (out @ [AverageClosedPnl avg_closed_pnl]))
            else Inr out)
           (\<lambda>out.
              if closed_count + open_count > 0
              then and_then (truediv (of_nat closed_count) (of_nat (closed_count + open_count)))
                     (\<lambda>q. Inr (out @ [ComplianceRate (q * 100)]))
              else Inr out))"

section \<open>Emotion-vs-win-rate report (emotion_win_rate_analysis)\<close>

definition emotional_mistakes :: "string list" where
  "emotional_mistakes =
     [''FOMO trading'', ''Revenge trading'', ''Overconfidence'',
      ''Hesitation'', ''Confirmation bias'']"

text \<open>\<open>Mistake.objects.filter(name__in=emotional_mistakes)\<close>.\<close>

definition emotion_mistake_objects :: "database \<Rightarrow> mistake list" where
  "emotion_mistake_objects db =
     filter (\<lambda>m. name m \<in> set emotional_mistakes) (mistake_objects db)"

text \<open>
  \<open>queryset.filter(mistakes__in=objs)\<close> joins the trades with their links: a trade
  comes out once for each of its links to one of the objects.
  \<open>queryset.exclude(mistakes__in=objs)\<close> keeps the trades with no such link.
  \<open>.distinct()\<close> removes repeated rows.
\<close>

definition filter_mistakes_in :: "mistake list \<Rightarrow> trade list \<Rightarrow> trade list" where
  "filter_mistakes_in objs qs =
     concat (map (\<lambda>t. map (\<lambda>_. t)
                         (filter (\<lambda>k. k \<in> set (map mistake_pk objs)) (mistakes t))) qs)"

definition exclude_mistakes_in :: "mistake list \<Rightarrow> trade list \<Rightarrow> trade list" where
  "exclude_mistakes_in objs qs =
     exclude (\<lambda>t. \<exists>k \<in> set (mistakes t). k \<in> set (map mistake_pk objs)) qs"

definition distinct_rows :: "'a list \<Rightarrow> 'a list" where
  "distinct_rows qs = remdups qs"

text \<open>
  The filter of the wins:
  \<open>Q(side='buy', exit_price__gt=F('entry_price')) | Q(side='sell', exit_price__lt=F('entry_price'))\<close>.
  A comparison with a missing exit price does not match.
\<close>

definition is_win :: "trade \<Rightarrow> bool" where
  "is_win t =
     (case exit_price t of
        None \<Rightarrow> False
      | Some xp \<Rightarrow> (side t = Buy \<and> xp > entry_price t) \<or> (side t = Sell \<and> xp < entry_price t))"

definition calculate_win_rate :: "trade list \<Rightarrow> nat \<times> nat" where
  "calculate_win_rate trade_queryset =
     (let closed = closed_of trade_queryset
      in if length closed = 0 then (0, 0)
         else (let wins = length (filter is_win closed) in (wins, length closed)))"

text \<open>\<open>(wins / total * 100) if total > 0 else 0\<close>.\<close>

definition win_rate :: "nat \<Rightarrow> nat \<Rightarrow> error + rat" where
  "win_rate wins closed_count =
     (if closed_count > 0
      then and_then (truediv (of_nat wins) (of_nat closed_count)) (\<lambda>q. Inr (q * 100))
      else Inr 0)"

definition emotional_trades :: "database \<Rightarrow> account \<Rightarrow> trade list" where
  "emotional_trades db u =
     distinct_rows (filter_mistakes_in (emotion_mistake_objects db) (user_trades db u))"

definition non_emotional_trades :: "database \<Rightarrow> account \<Rightarrow> trade list" where
  "non_emotional_trades db u =
     distinct_rows (exclude_mistakes_in (emotion_mistake_objects db) (user_trades db u))"

definition emotion_win_rate_analysis :: "database \<Rightarrow> account \<Rightarrow> error + line list" where
  "emotion_win_rate_analysis db u =
     (let emotional_count = length (emotional_trades db u);
          non_emotional_count = length (non_emotional_trades db u);
          (emotion_wins, emotion_total) = calculate_win_rate (emotional_trades db u);
          (non_emotion_wins, non_emotion_total) = calculate_win_rate (non_emotional_trades db u)
      in and_then (win_rate emotion_wins emotion_total) (\<lambda>emotion_win_rate.
         and_then (win_rate non_emotion_wins non_emotion_total) (\<lambda>non_emotion_win_rate.
           Inr ([EmotionalTrades emotional_count emotion_total emotion_wins emotion_win_rate,
                 NonEmotionalTrades non_emotional_count non_emotion_total non_emotion_wins
                   non_emotion_win_rate]
                @ (if emotion_total > 0 \<and> non_emotion_total > 0
                   then [WinRateDifference (emotion_win_rate - non_emotion_win_rate)]
                   else [])))))"

section \<open>Mistake-frequency report (mistake_frequency_analysis)\<close>

text \<open>One entry of \<open>mistake_stats\<close>.\<close>

record stat =
  stat_name :: string
  stat_category :: string
  frequency :: nat
  avg_pnl :: rat
  total_pnl :: rat

text \<open>\<open>trades.filter(mistakes=mistake)\<close>: one row for each link of a trade to the mistake.\<close>

definition filter_mistake :: "mistake \<Rightarrow> trade list \<Rightarrow> trade list" where
  "filter_mistake m qs =
     concat (map (\<lambda>t. map (\<lambda>_. t) (filter (\<lambda>k. k = mistake_pk m) (mistakes t))) qs)"

text \<open>The loop over \<open>Mistake.objects.all()\<close> that fills \<open>mistake_stats\<close>.\<close>

fun collect_stats :: "trade list \<Rightarrow> mistake list \<Rightarrow> error + stat list" where
  "collect_stats trades [] = Inr []"
| "collect_stats trades (mistake # rest) =
     (let trade_count = length (filter_mistake mistake trades)
      in if trade_count > 0
         then (let mistake_trades = filter_mistake mistake trades;
                   closed_mistake_trades = closed_of mistake_trades;
                   pnl_total = sum_pnl closed_mistake_trades
               in and_then
                    (if length closed_mistake_trades > 0
                     then truediv pnl_total (of_nat (length closed_mistake_trades))
                     else Inr 0)
                    (\<lambda>avg. and_then (collect_stats trades rest)
                       (\<lambda>stats. Inr (\<lparr>stat_name = name mistake,
                                       stat_category = get_category_display (category mistake),
                                       frequency = trade_count,
                                       avg_pnl = avg,
                                       total_pnl = pnl_total\<rparr> # stats))))
         else collect_stats trades rest)"

text \<open>
  \<open>list.sort(key=..., reverse=True)\<close> and \<open>sorted(..., key=..., reverse=True)\<close>:
  the list is reversed, sorted stably in ascending order of the key, and reversed again.
\<close>

definition sort_reverse :: "('a \<Rightarrow> nat) \<Rightarrow> 'a list \<Rightarrow> 'a list" where
  "sort_reverse key xs = rev (sort_key key (rev xs))"

definition mistake_stats :: "database \<Rightarrow> account \<Rightarrow> error + stat list" where
  "mistake_stats db u =
     and_then (collect_stats (user_trades db u) (mistake_objects db))
       (\<lambda>stats. Inr (sort_reverse frequency stats))"

text \<open>The two lines written for each entry of \<open>enumerate(mistake_stats[:n], 1)\<close>.\<close>

fun stat_lines :: "nat \<Rightarrow> stat list \<Rightarrow> line list" where
  "stat_lines i [] = []"
| "stat_lines i (s # ss) =
     MistakeHeader i (stat_name s) (stat_category s)
     # MistakeDetail (frequency s) (avg_pnl s) (total_pnl s)
     # stat_lines (Suc i) ss"

text \<open>
  \<open>category_stats\<close> is a dictionary in insertion order: an association list.
  A new key goes to the end; an update keeps the key's place.
\<close>

record category_data =
  cat_count :: nat
  cat_total_pnl :: rat

definition add_stat ::
  "(string \<times> category_data) list \<Rightarrow> stat \<Rightarrow> (string \<times> category_data) list" where
  "add_stat category_stats s =
     (let cat = stat_category s;
          d0 = (if map_of category_stats cat = None
                then AList.update cat \<lparr>cat_count = 0, cat_total_pnl = 0\<rparr> category_stats
                else category_stats);
          d1 = AList.map_entry cat (\<lambda>d. d\<lparr>cat_count := cat_count d + frequency s\<rparr>) d0
      in AList.map_entry cat (\<lambda>d. d\<lparr>cat_total_pnl := cat_total_pnl d + total_pnl s\<rparr>) d1)"

definition category_stats :: "stat list \<Rightarrow> (string \<times> category_data) list" where
  "category_stats stats = foldl add_stat [] stats"

definition category_rollup :: "stat list \<Rightarrow> (string \<times> category_data) list" where
  "category_rollup stats = sort_reverse (\<lambda>x. cat_count (snd x)) (category_stats stats)"

text \<open>\<open>data['total_pnl'] / data['count'] if data['count'] > 0 else 0\<close>.\<close>

definition category_avg_pnl :: "category_data \<Rightarrow> error + rat" where
  "category_avg_pnl d =
     (if cat_count d > 0 then truediv (cat_total_pnl d) (of_nat (cat_count d)) else Inr 0)"

fun category_lines :: "(string \<times> category_data) list \<Rightarrow> error + line list" where
  "category_lines [] = Inr []"
| "category_lines ((cat, d) # rest) =
     and_then (category_avg_pnl d)
       (\<lambda>avg. and_then (category_lines rest)
          (\<lambda>ls. Inr (CategoryLine cat (cat_count d) avg # ls)))"

definition mistake_frequency_analysis :: "database \<Rightarrow> account \<Rightarrow> error + line list" where
  "mistake_frequency_analysis db u =
     and_then (mistake_stats db u) (\<lambda>stats.
     and_then (category_lines (category_rollup stats)) (\<lambda>cat_lines.
       Inr ([Text ''  Top 10 most frequent mistakes:'']
            @ stat_lines 1 (take 10 stats)
            @ (if stats = [] then [NoMistakes] else [])
            @ [Text ''  Mistakes by category:'']
            @ cat_lines)))"

section \<open>The management command (Command.handle, Command.run_analytics)\<close>

definition run_analytics :: "database \<Rightarrow> account \<Rightarrow> error + line list" where
  "run_analytics db u =
     and_then (rule_followed_analysis db u) (\<lambda>l1.
     and_then (emotion_win_rate_analysis db u) (\<lambda>l2.
     and_then (mistake_frequency_analysis db u) (\<lambda>l3.
       Inr ([Text ''1. RULE-FOLLOWED VS RULE-BROKEN P&L ANALYSIS''] @ l1
            @ [Text ''2. EMOTION VS WIN RATE ANALYSIS''] @ l2
            @ [Text ''3. MISTAKE FREQUENCY ANALYSIS''] @ l3))))"

text \<open>\<open>User.objects.get(username=...)\<close>.\<close>

definition get_user :: "database \<Rightarrow> string \<Rightarrow> error + account" where
  "get_user db uname =
     (case filter (\<lambda>a. username a = uname) (user_objects db) of
        [] \<Rightarrow> Inl DoesNotExist
      | [a] \<Rightarrow> Inr a
      | _ \<Rightarrow> Inl MultipleObjectsReturned)"

text \<open>The loop over all users: a user without trades is skipped.\<close>

fun analyze_all :: "database \<Rightarrow> account list \<Rightarrow> error + line list" where
  "analyze_all db [] = Inr []"
| "analyze_all db (a # rest) =
     (if user_trades db a \<noteq> []
      then and_then (run_analytics db a) (\<lambda>ls.
           and_then (analyze_all db rest) (\<lambda>ls'.
             Inr (Text (''=== ANALYZING USER: '' @ username a @ '' ==='') # ls @ ls')))
      else analyze_all db rest)"

text \<open>
  \<open>handle\<close>: the option \<open>--user\<close> is absent, empty or a name. The \<open>try\<close> block holds the
  lookup and the run; \<open>except User.DoesNotExist\<close> writes the error line. A result
  \<open>Inl e\<close> is an exception that leaves \<open>handle\<close>; the lines written before it are not
  kept.
\<close>

definition handle :: "database \<Rightarrow> string option \<Rightarrow> error + line list" where
  "handle db options_user =
     (case options_user of
        None \<Rightarrow> analyze_all db (user_objects db)
      | Some uname \<Rightarrow>
          if uname = [] then analyze_all db (user_objects db)
          else (case and_then (get_user db uname) (\<lambda>a.
                       and_then (run_analytics db a) (\<lambda>ls.
                         Inr (Text (''Analyzing data for user: '' @ uname) # ls))) of
                  Inl DoesNotExist \<Rightarrow> Inr [UserNotFound uname]
                | Inl e \<Rightarrow> Inl e
                | Inr ls \<Rightarrow> Inr ls))"

section \<open>The ad-hoc script (run_analytics.py)\<close>

text \<open>
  The script looks up the fixed user \<open>user0\<close> outside any \<open>try\<close>, runs the same three
  computations inline, lists the top 5 mistakes and has no category breakdown.
\<close>

definition script_run_analytics :: "database \<Rightarrow> error + line list" where
  "script_run_analytics db =
     and_then (get_user db ''user0'') (\<lambda>a.
     and_then (rule_followed_analysis db a) (\<lambda>l1.
     and_then (emotion_win_rate_analysis db a) (\<lambda>l2.
     and_then (mistake_stats db a) (\<lambda>stats.
       Inr ([Text ''=== ANALYTICS QUERIES DEMONSTRATION ==='',
             Text (''Analyzing data for user: '' @ username a),
             TotalTrades (length (user_trades db a)),
             Text ''1. RULE-FOLLOWED VS RULE-BROKEN P&L ANALYSIS''] @ l1
            @ [Text ''2. EMOTION VS WIN RATE ANALYSIS''] @ l2
            @ [Text ''3. MISTAKE FREQUENCY ANALYSIS'',
               Text ''  Top 5 most frequent mistakes:'']
            @ stat_lines 1 (take 5 stats)
            @ (if stats = [] then [NoMistakes] else [])
            @ [Text ''Analytics queries completed!''])))))"

section \<open>What the specification says the reports contain\<close>

text \<open>
  These definitions follow the specification's words, not the code; the theorems below
  compare the code with them.

  A trade carries an emotional tag when one of its links leads to a mistake of the
  catalog whose name is in the fixed list.
\<close>

definition carries_emotional_tag :: "database \<Rightarrow> trade \<Rightarrow> bool" where
  "carries_emotional_tag db t \<longleftrightarrow>
     (\<exists>m \<in> set (mistake_objects db).
        name m \<in> set emotional_mistakes \<and> mistake_pk m \<in> set (mistakes t))"

text \<open>The number of occurrences of a mistake among some trades.\<close>

definition occurrences :: "trade list \<Rightarrow> mistake \<Rightarrow> nat" where
  "occurrences ts m = length (filter_mistake m ts)"

text \<open>
  The entry of a mistake: its name, the label of its category, its occurrences, and the
  total and the average profit of its closed trades (the average is 0 without any).
\<close>

definition expected_stat :: "trade list \<Rightarrow> mistake \<Rightarrow> stat" where
  "expected_stat ts m =
     \<lparr>stat_name = name m,
      stat_category = get_category_display (category m),
      frequency = occurrences ts m,
      avg_pnl = (if closed_of (filter_mistake m ts) = [] then 0
                 else sum_pnl (closed_of (filter_mistake m ts))
                      / of_nat (length (closed_of (filter_mistake m ts)))),
      total_pnl = sum_pnl (closed_of (filter_mistake m ts))\<rparr>"

text \<open>The entries of all mistakes that occur at least once, in catalog order.\<close>

definition expected_stats :: "trade list \<Rightarrow> mistake list \<Rightarrow> stat list" where
  "expected_stats ts ms = map (expected_stat ts) (filter (\<lambda>m. 0 < occurrences ts m) ms)"

text \<open>
  The roll-up of a category: the sum of the occurrences and the sum of the total
  profits of the entries of that category.
\<close>

definition expected_category :: "stat list \<Rightarrow> string \<Rightarrow> category_data" where
  "expected_category stats c =
     \<lparr>cat_count = sum_list (map frequency (filter (\<lambda>s. stat_category s = c) stats)),
      cat_total_pnl = sum_list (map total_pnl (filter (\<lambda>s. stat_category s = c) stats))\<rparr>"

text \<open>
  The win rate of a partition: wins over closed trades, times 100, and 0 when the
  partition has no closed trade.
\<close>

definition expected_win_rate :: "trade list \<Rightarrow> rat" where
  "expected_win_rate q =
     (if closed_of q = [] then 0
      else of_nat (length (filter is_win (closed_of q))) / of_nat (length (closed_of q)) * 100)"

section \<open>Example data\<close>

text \<open>
  The specification's example: a closed buy (100 at 10, exit 12), a closed sell (50 at 20,
  exit 18) and an open buy (10 at 5), all of \<open>user0\<close>; a second user without trades; a
  catalog of four mistakes, one of them never tagged.
\<close>

definition trade1 :: trade where
  "trade1 = \<lparr>trade_pk = 1, user = 1, side = Buy, quantity = 100, entry_price = 10,
             entry_date = 0, exit_price = Some 12, exit_date = Some 5, mistakes = [1, 2]\<rparr>"

definition trade2 :: trade where
  "trade2 = \<lparr>trade_pk = 2, user = 1, side = Sell, quantity = 50, entry_price = 20,
             entry_date = 1, exit_price = Some 18, exit_date = Some 6, mistakes = [3]\<rparr>"

definition trade3 :: trade where
  "trade3 = \<lparr>trade_pk = 3, user = 1, side = Buy, quantity = 10, entry_price = 5,
             entry_date = 2, exit_price = None, exit_date = None, mistakes = [2]\<rparr>"

definition user0 :: account where
  "user0 = \<lparr>account_pk = 1, username = ''user0''\<rparr>"

definition user1 :: account where
  "user1 = \<lparr>account_pk = 2, username = ''user1''\<rparr>"

definition catalog :: "mistake list" where
  "catalog =
     [\<lparr>mistake_pk = 1, name = ''FOMO trading'', category = Psychology\<rparr>,
      \<lparr>mistake_pk = 2, name = ''Hesitation'', category = Psychology\<rparr>,
      \<lparr>mistake_pk = 3, name = ''Slippage'', category = Execution\<rparr>,
      \<lparr>mistake_pk = 4, name = ''No stop loss'', category = Exit\<rparr>]"

definition example_db :: database where
  "example_db =
     \<lparr>user_objects = [user0, user1], trade_objects = [trade1, trade2, trade3],
      mistake_objects = catalog\<rparr>"

text \<open>
  A trade that \<open>Trade.objects.create\<close> accepts and \<open>Trade.clean\<close> would reject: an exit
  price without an exit date.
\<close>

definition half_closed_trade :: trade where
  "half_closed_trade =
     \<lparr>trade_pk = 4, user = 1, side = Buy, quantity = 1, entry_price = 10,
      entry_date = 0, exit_price = Some 12, exit_date = None, mistakes = []\<rparr>"

definition half_closed_db :: database where
  "half_closed_db =
     \<lparr>user_objects = [user0], trade_objects = [half_closed_trade], mistake_objects = []\<rparr>"

text \<open>The example database without \<open>user0\<close>, the user that the script looks up.\<close>

definition no_user0_db :: database where
  "no_user0_db =
     \<lparr>user_objects = [user1], trade_objects = [trade1, trade2, trade3],
      mistake_objects = catalog\<rparr>"

definition empty_db :: database where
  "empty_db = \<lparr>user_objects = [user0], trade_objects = [], mistake_objects = []\<rparr>"

section \<open>Basic facts about the primitives\<close>

lemmas example_defs =
  example_db_def trade1_def trade2_def trade3_def user0_def user1_def catalog_def
  half_closed_db_def half_closed_trade_def empty_db_def no_user0_db_def

lemmas query_defs =
  user_trades_def closed_of_def open_of_def exclude_def sum_pnl_def pnl_or_0_def pnl_def
  truediv_def

lemmas emotion_defs = emotional_trades_def non_emotional_trades_def distinct_rows_def
  filter_mistakes_in_def exclude_mistakes_in_def emotion_mistake_objects_def emotional_mistakes_def

lemmas stats_defs = mistake_stats_def filter_mistake_def sort_reverse_def
  category_rollup_def category_stats_def add_stat_def category_avg_pnl_def

lemma and_then_Inr [simp]: "and_then (Inr v) f = f v"
  by (simp add: and_then_def)

lemma and_then_Inl [simp]: "and_then (Inl e) f = Inl e"
  by (simp add: and_then_def)

lemma truediv_of_nat [simp]: "0 < n \<Longrightarrow> truediv a (of_nat n) = Inr (a / of_nat n)"
  by (simp add: truediv_def)

lemma closed_of_eq: "closed_of qs = filter is_closed qs"
  by (induction qs) (auto simp: closed_of_def exclude_def is_closed_def)

lemma open_of_eq: "open_of qs = filter (\<lambda>t. \<not> is_closed t) qs"
  by (induction qs) (auto simp: open_of_def is_closed_def)

lemma closed_open_length: "length (closed_of qs) + length (open_of qs) = length qs"
  by (simp add: closed_of_eq open_of_eq sum_length_filter_compl)

lemma closed_open_disjoint: "set (closed_of qs) \<inter> set (open_of qs) = {}"
  by (auto simp: closed_of_eq open_of_eq)

lemma pnl_or_0_eq: "pnl_or_0 t = (case pnl t of None \<Rightarrow> 0 | Some p \<Rightarrow> p)"
  by (simp add: pnl_or_0_def split: option.splits)

lemma sum_pnl_open_dated:
  "\<forall>t \<in> set qs. exit_price t \<noteq> None \<longrightarrow> exit_date t \<noteq> None \<Longrightarrow> sum_pnl (open_of qs) = 0"
  by (induction qs) (auto simp: sum_pnl_def open_of_def pnl_or_0_eq pnl_def)

lemma exit_consistent_dated:
  "exit_consistent t \<Longrightarrow> exit_price t \<noteq> None \<longrightarrow> exit_date t \<noteq> None"
  by (simp add: exit_consistent_def)

section \<open>Profit and loss of a single trade\<close>

text \<open>
  C8. A trade with positive quantity whose exit price is set (as it is for every closed
  trade) has a strictly positive profit when it is a buy that exited above its entry
  price, and when it is a sell that exited below its entry price. The arithmetic is exact.
\<close>

theorem pnl_positive_on_favourable_exit:
  assumes "0 < quantity t" and "exit_price t = Some xp"
    and "(side t = Buy \<and> entry_price t < xp) \<or> (side t = Sell \<and> xp < entry_price t)"
  shows "\<exists>p. pnl t = Some p \<and> 0 < p"
  using assms by (auto simp: pnl_def)

theorem pnl_positive_on_favourable_exit_witness:
  "\<exists>p. pnl \<lparr>trade_pk = 1, user = 1, side = Sell, quantity = 50, entry_price = 20,
          entry_date = 0, exit_price = Some 18, exit_date = Some 5, mistakes = []\<rparr> = Some p
       \<and> 0 < p"
  using pnl_positive_on_favourable_exit
    [of "\<lparr>trade_pk = 1, user = 1, side = Sell, quantity = 50, entry_price = 20,
          entry_date = 0, exit_price = Some 18, exit_date = Some 5, mistakes = []\<rparr>" 18]
  by simp

section \<open>The rule-compliance report\<close>

text \<open>
  The report never raises; its output in closed form. The average line is written only
  when there is a closed trade, the compliance line only when there is a trade.
\<close>

lemma rule_followed_analysis_eq:
  "rule_followed_analysis db u =
     Inr ([ClosedTrades (length (closed_of (user_trades db u))) (sum_pnl (closed_of (user_trades db u))),
           OpenTrades (length (open_of (user_trades db u))) (sum_pnl (open_of (user_trades db u)))]
          @ (if closed_of (user_trades db u) = [] then []
             else [AverageClosedPnl (sum_pnl (closed_of (user_trades db u))
                     / of_nat (length (closed_of (user_trades db u))))])
          @ (if user_trades db u = [] then []
             else [ComplianceRate (of_nat (length (closed_of (user_trades db u)))
                     / of_nat (length (user_trades db u)) * 100)]))"
proof -
  have *: "length (closed_of (user_trades db u)) + length (open_of (user_trades db u))
           = length (user_trades db u)"
    by (rule closed_open_length)
  show ?thesis
    unfolding rule_followed_analysis_def Let_def *
    by (simp del: of_nat_add)
qed

text \<open>
  C2. The closed partition (exit price and exit date both present) and the open partition
  (either absent) of a user's trades are complementary: the closed trades are those for
  which \<open>is_closed\<close> holds, the open trades are the others, the two counts add up to
  the number of trades, no trade is in both, and the report writes these two counts.
\<close>

theorem rule_compliance_partition:
  "closed_of (user_trades db u) = filter is_closed (user_trades db u)
   \<and> open_of (user_trades db u) = filter (\<lambda>t. \<not> is_closed t) (user_trades db u)
   \<and> length (closed_of (user_trades db u)) + length (open_of (user_trades db u))
       = length (user_trades db u)
   \<and> set (closed_of (user_trades db u)) \<inter> set (open_of (user_trades db u)) = {}
   \<and> (\<exists>closed_pnl open_pnl rest.
         rule_followed_analysis db u =
           Inr (ClosedTrades (length (closed_of (user_trades db u))) closed_pnl
                # OpenTrades (length (open_of (user_trades db u))) open_pnl # rest))"
  by (simp add: closed_of_eq [symmetric] open_of_eq [symmetric] closed_open_length
        closed_open_disjoint rule_followed_analysis_eq)

theorem rule_compliance_partition_witness:
  "length (closed_of (user_trades example_db user0)) = 2
   \<and> length (open_of (user_trades example_db user0)) = 1
   \<and> length (user_trades example_db user0) = 3"
  using rule_compliance_partition [of example_db user0]
  by (simp add: example_defs query_defs is_closed_def)

text \<open>
  What \<open>Trade.pnl\<close> computes. The profit is absent exactly when the exit price is
  absent; with an exit price it is (exit - entry) * quantity for a buy and
  (entry - exit) * quantity for a sell. For a trade whose exit price, if present, comes
  with an exit date, the profit is absent exactly when the trade is open; when all trades
  of the user are such, the open partition sums to 0 and the report writes 0 for it.
\<close>

lemma pnl_by_exit_price:
  "(pnl t = None \<longleftrightarrow> exit_price t = None)
   \<and> (exit_price t = Some xp \<and> side t = Buy \<longrightarrow>
         pnl t = Some ((xp - entry_price t) * quantity t))
   \<and> (exit_price t = Some xp \<and> side t = Sell \<longrightarrow>
         pnl t = Some ((entry_price t - xp) * quantity t))
   \<and> ((exit_price t \<noteq> None \<longrightarrow> exit_date t \<noteq> None) \<longrightarrow>
         (pnl t = None \<longleftrightarrow> \<not> is_closed t))
   \<and> ((\<forall>t \<in> set (user_trades db u). exit_price t \<noteq> None \<longrightarrow> exit_date t \<noteq> None) \<longrightarrow>
         sum_pnl (open_of (user_trades db u)) = 0
         \<and> (\<exists>closed_pnl rest.
               rule_followed_analysis db u =
                 Inr (ClosedTrades (length (closed_of (user_trades db u))) closed_pnl
                      # OpenTrades (length (open_of (user_trades db u))) 0 # rest)))"
proof -
  have a: "pnl t = None \<longleftrightarrow> exit_price t = None"
    by (simp add: pnl_def split: option.splits)
  have b: "exit_price t = Some xp \<and> side t = Buy \<longrightarrow>
             pnl t = Some ((xp - entry_price t) * quantity t)"
    by (simp add: pnl_def)
  have c: "exit_price t = Some xp \<and> side t = Sell \<longrightarrow>
             pnl t = Some ((entry_price t - xp) * quantity t)"
    by (simp add: pnl_def)
  have d: "(exit_price t \<noteq> None \<longrightarrow> exit_date t \<noteq> None) \<longrightarrow>
             (pnl t = None \<longleftrightarrow> \<not> is_closed t)"
    by (auto simp: a is_closed_def)
  have e: "(\<forall>t \<in> set (user_trades db u). exit_price t \<noteq> None \<longrightarrow> exit_date t \<noteq> None) \<longrightarrow>
         sum_pnl (open_of (user_trades db u)) = 0
         \<and> (\<exists>closed_pnl rest.
               rule_followed_analysis db u =
                 Inr (ClosedTrades (length (closed_of (user_trades db u))) closed_pnl
                      # OpenTrades (length (open_of (user_trades db u))) 0 # rest))"
    by (simp add: sum_pnl_open_dated rule_followed_analysis_eq)
  from a b c d e show ?thesis by blast
qed

text \<open>
  C1. The profit of an open trade should be absent, and the open partition of the
  rule-compliance report should sum to 0. \<open>Trade.pnl\<close> tests the exit price only,
  while \<open>Trade.is_closed\<close> and the report's open partition test both exit columns. At a
  trade with an exit price of 12, an entry price of 10, quantity 1 and no exit date, the
  trade is not closed and is in the open partition, yet its profit is 2 and the report
  writes 2 as the sum of the open partition.
\<close>

theorem half_closed_trade_pnl:
  "\<not> is_closed half_closed_trade
   \<and> pnl half_closed_trade = Some 2
   \<and> open_of (user_trades half_closed_db user0) = [half_closed_trade]
   \<and> rule_followed_analysis half_closed_db user0
       = Inr [ClosedTrades 0 0, OpenTrades 1 2, ComplianceRate 0]"
  by (simp add: example_defs query_defs is_closed_def rule_followed_analysis_def)

section \<open>The emotion-vs-win-rate report\<close>

lemma win_rate_eq: "win_rate w n = Inr (if n = 0 then 0 else of_nat w / of_nat n * 100)"
  by (simp add: win_rate_def)

lemma calculate_win_rate_eq:
  "calculate_win_rate q = (length (filter is_win (closed_of q)), length (closed_of q))"
  by (simp add: calculate_win_rate_def Let_def)

lemma win_rate_calculate:
  "win_rate (fst (calculate_win_rate q)) (snd (calculate_win_rate q)) = Inr (expected_win_rate q)"
  by (simp add: win_rate_eq calculate_win_rate_eq expected_win_rate_def)

lemma expected_win_rate_range: "0 \<le> expected_win_rate q \<and> expected_win_rate q \<le> 100"
proof (cases "closed_of q = []")
  case True
  then show ?thesis by (simp add: expected_win_rate_def)
next
  case False
  define r :: rat
    where "r = of_nat (length (filter is_win (closed_of q))) / of_nat (length (closed_of q))"
  from False have pos: "0 < length (closed_of q)" by simp
  have "length (filter is_win (closed_of q)) \<le> length (closed_of q)"
    by (rule length_filter_le)
  then have "(of_nat (length (filter is_win (closed_of q))) :: rat)
               \<le> of_nat (length (closed_of q))"
    by (simp only: of_nat_le_iff)
  with pos have "r \<le> 1" and "0 \<le> r"
    by (simp_all add: r_def divide_le_eq_1)
  moreover from False have "expected_win_rate q = r * 100"
    by (simp add: expected_win_rate_def r_def)
  ultimately show ?thesis by simp
qed

lemma emotion_win_rate_analysis_eq:
  "emotion_win_rate_analysis db u =
     Inr ([EmotionalTrades (length (emotional_trades db u))
             (length (closed_of (emotional_trades db u)))
             (length (filter is_win (closed_of (emotional_trades db u))))
             (expected_win_rate (emotional_trades db u)),
           NonEmotionalTrades (length (non_emotional_trades db u))
             (length (closed_of (non_emotional_trades db u)))
             (length (filter is_win (closed_of (non_emotional_trades db u))))
             (expected_win_rate (non_emotional_trades db u))]
          @ (if closed_of (emotional_trades db u) \<noteq> [] \<and> closed_of (non_emotional_trades db u) \<noteq> []
             then [WinRateDifference (expected_win_rate (emotional_trades db u)
                                      - expected_win_rate (non_emotional_trades db u))]
             else []))"
  by (simp add: emotion_win_rate_analysis_def calculate_win_rate_eq win_rate_eq
        expected_win_rate_def)

text \<open>
  C4. For a partition \<open>q\<close>, \<open>calculate_win_rate\<close> returns the number of wins among the
  closed trades of \<open>q\<close> and the number of closed trades, and the win rate computed from
  them is wins / closed * 100. A trade is a win exactly when its exit price is set and it
  is a buy with exit above entry or a sell with exit below entry; a trade that exits at its
  entry price is not a win. The win rate lies between 0 and 100, and it is 0, without any
  error, when the partition has no closed trade. The report writes these numbers for both
  partitions.
\<close>

theorem win_rate_of_partition:
  "calculate_win_rate q = (length (filter is_win (closed_of q)), length (closed_of q))
   \<and> win_rate (fst (calculate_win_rate q)) (snd (calculate_win_rate q))
       = Inr (expected_win_rate q)
   \<and> (is_win t \<longleftrightarrow>
        (\<exists>xp. exit_price t = Some xp
              \<and> ((side t = Buy \<and> xp > entry_price t) \<or> (side t = Sell \<and> xp < entry_price t))))
   \<and> (exit_price t = Some (entry_price t) \<longrightarrow> \<not> is_win t)
   \<and> 0 \<le> expected_win_rate q \<and> expected_win_rate q \<le> 100
   \<and> (closed_of q = [] \<longrightarrow> expected_win_rate q = 0)
   \<and> (\<exists>rest.
         emotion_win_rate_analysis db u =
           Inr (EmotionalTrades (length (emotional_trades db u))
                  (length (closed_of (emotional_trades db u)))
                  (length (filter is_win (closed_of (emotional_trades db u))))
                  (expected_win_rate (emotional_trades db u))
                # NonEmotionalTrades (length (non_emotional_trades db u))
                    (length (closed_of (non_emotional_trades db u)))
                    (length (filter is_win (closed_of (non_emotional_trades db u))))
                    (expected_win_rate (non_emotional_trades db u))
                # rest))"
proof -
  have w: "is_win t \<longleftrightarrow>
        (\<exists>xp. exit_price t = Some xp
              \<and> ((side t = Buy \<and> xp > entry_price t) \<or> (side t = Sell \<and> xp < entry_price t)))"
    by (simp add: is_win_def split: option.splits)
  have b: "exit_price t = Some (entry_price t) \<longrightarrow> \<not> is_win t"
    by (simp add: is_win_def)
  have z: "closed_of q = [] \<longrightarrow> expected_win_rate q = 0"
    by (simp add: expected_win_rate_def)
  have e: "\<exists>rest.
         emotion_win_rate_analysis db u =
           Inr (EmotionalTrades (length (emotional_trades db u))
                  (length (closed_of (emotional_trades db u)))
                  (length (filter is_win (closed_of (emotional_trades db u))))
                  (expected_win_rate (emotional_trades db u))
                # NonEmotionalTrades (length (non_emotional_trades db u))
                    (length (closed_of (non_emotional_trades db u)))
                    (length (filter is_win (closed_of (non_emotional_trades db u))))
                    (expected_win_rate (non_emotional_trades db u))
                # rest)"
    by (simp add: emotion_win_rate_analysis_eq)
  show ?thesis
    using w b z e expected_win_rate_range [of q] calculate_win_rate_eq [of q]
      win_rate_calculate [of q]
    by blast
qed

theorem win_rate_of_partition_witness:
  "calculate_win_rate [trade1, trade2, trade3] = (2, 2)
   \<and> expected_win_rate [trade1, trade2, trade3] = 100
   \<and> closed_of [trade3] = [] \<and> expected_win_rate [trade3] = 0
   \<and> exit_price (trade1\<lparr>exit_price := Some 10\<rparr>) = Some (entry_price (trade1\<lparr>exit_price := Some 10\<rparr>))
   \<and> \<not> is_win (trade1\<lparr>exit_price := Some 10\<rparr>)"
  using win_rate_of_partition [of "[trade1, trade2, trade3]" "trade1\<lparr>exit_price := Some 10\<rparr>" example_db user0]
    win_rate_of_partition [of "[trade3]" trade1 example_db user0]
  by (simp add: example_defs query_defs is_win_def expected_win_rate_def)

lemma set_filter_mistakes_in:
  "set (filter_mistakes_in objs qs)
     = {t \<in> set qs. \<exists>k \<in> set (mistakes t). k \<in> set (map mistake_pk objs)}"
  by (auto simp: filter_mistakes_in_def)

lemma emotional_link_iff:
  "(\<exists>k \<in> set (mistakes t). k \<in> mistake_pk ` set (emotion_mistake_objects db))
     \<longleftrightarrow> carries_emotional_tag db t"
  by (auto simp: carries_emotional_tag_def emotion_mistake_objects_def)

lemma set_emotional_trades:
  "set (emotional_trades db u) = {t \<in> set (user_trades db u). carries_emotional_tag db t}"
  by (simp add: emotional_trades_def distinct_rows_def set_filter_mistakes_in emotional_link_iff)

lemma set_non_emotional_trades:
  "set (non_emotional_trades db u)
     = {t \<in> set (user_trades db u). \<not> carries_emotional_tag db t}"
  by (simp add: non_emotional_trades_def distinct_rows_def exclude_mistakes_in_def exclude_def
        emotional_link_iff)

lemma distinct_user_trades:
  "distinct (map trade_pk (trade_objects db)) \<Longrightarrow> distinct (user_trades db u)"
  by (simp add: user_trades_def distinct_map)

lemma length_emotional_trades:
  assumes "distinct (user_trades db u)"
  shows "length (emotional_trades db u)
           = length (filter (carries_emotional_tag db) (user_trades db u))"
proof -
  have "set (emotional_trades db u)
          = set (filter (carries_emotional_tag db) (user_trades db u))"
    by (simp add: set_emotional_trades)
  then have "card (set (emotional_trades db u))
          = card (set (filter (carries_emotional_tag db) (user_trades db u)))"
    by (rule arg_cong)
  also have "\<dots> = length (filter (carries_emotional_tag db) (user_trades db u))"
    by (rule distinct_card) (simp add: assms)
  finally show ?thesis
    by (simp add: emotional_trades_def distinct_rows_def length_remdups_card_conv)
qed

lemma length_non_emotional_trades:
  assumes "distinct (user_trades db u)"
  shows "length (non_emotional_trades db u)
           = length (filter (\<lambda>t. \<not> carries_emotional_tag db t) (user_trades db u))"
proof -
  have "set (non_emotional_trades db u)
          = set (filter (\<lambda>t. \<not> carries_emotional_tag db t) (user_trades db u))"
    by (simp add: set_non_emotional_trades)
  then have "card (set (non_emotional_trades db u))
          = card (set (filter (\<lambda>t. \<not> carries_emotional_tag db t) (user_trades db u)))"
    by (rule arg_cong)
  also have "\<dots> = length (filter (\<lambda>t. \<not> carries_emotional_tag db t) (user_trades db u))"
    by (rule distinct_card) (simp add: assms)
  finally show ?thesis
    by (simp add: non_emotional_trades_def distinct_rows_def length_remdups_card_conv)
qed

text \<open>
  C7. Let the trades have distinct primary keys. The emotional partition holds exactly the
  user's trades that carry at least one tag whose name is in the fixed list of five names,
  the non-emotional partition exactly the others (among them the trades tagged only with
  other mistakes, and the untagged ones). Each partition lists a trade once, however many
  emotional tags the trade carries; no trade is in both; the two totals add up to the
  number of trades; and the report writes these two totals.
\<close>

theorem emotional_partition:
  assumes "distinct (map trade_pk (trade_objects db))"
  shows "set emotional_mistakes
           = {''FOMO trading'', ''Revenge trading'', ''Overconfidence'', ''Hesitation'',
              ''Confirmation bias''}
         \<and> set (emotional_trades db u)
             = {t \<in> set (user_trades db u). carries_emotional_tag db t}
         \<and> set (non_emotional_trades db u)
             = {t \<in> set (user_trades db u). \<not> carries_emotional_tag db t}
         \<and> distinct (emotional_trades db u) \<and> distinct (non_emotional_trades db u)
         \<and> set (emotional_trades db u) \<inter> set (non_emotional_trades db u) = {}
         \<and> length (emotional_trades db u) + length (non_emotional_trades db u)
             = length (user_trades db u)
         \<and> (\<exists>c1 w1 r1 c2 w2 r2 rest.
               emotion_win_rate_analysis db u =
                 Inr (EmotionalTrades (length (emotional_trades db u)) c1 w1 r1
                      # NonEmotionalTrades (length (non_emotional_trades db u)) c2 w2 r2
                      # rest))"
proof -
  from assms have d: "distinct (user_trades db u)"
    by (rule distinct_user_trades)
  have n: "set emotional_mistakes
           = {''FOMO trading'', ''Revenge trading'', ''Overconfidence'', ''Hesitation'',
              ''Confirmation bias''}"
    by (simp add: emotional_mistakes_def)
  have dd: "distinct (emotional_trades db u) \<and> distinct (non_emotional_trades db u)"
    by (simp add: emotional_trades_def non_emotional_trades_def distinct_rows_def)
  have i: "set (emotional_trades db u) \<inter> set (non_emotional_trades db u) = {}"
    by (auto simp: set_emotional_trades set_non_emotional_trades)
  have l: "length (emotional_trades db u) + length (non_emotional_trades db u)
             = length (user_trades db u)"
    by (simp add: length_emotional_trades [OF d] length_non_emotional_trades [OF d]
          sum_length_filter_compl)
  have r: "\<exists>c1 w1 r1 c2 w2 r2 rest.
               emotion_win_rate_analysis db u =
                 Inr (EmotionalTrades (length (emotional_trades db u)) c1 w1 r1
                      # NonEmotionalTrades (length (non_emotional_trades db u)) c2 w2 r2
                      # rest)"
    by (simp add: emotion_win_rate_analysis_eq)
  from n dd i l r set_emotional_trades [of db u] set_non_emotional_trades [of db u]
  show ?thesis by blast
qed

theorem emotional_partition_witness:
  "distinct (map trade_pk (trade_objects example_db))
   \<and> emotional_trades example_db user0 = [trade1, trade3]
   \<and> non_emotional_trades example_db user0 = [trade2]
   \<and> length (emotional_trades example_db user0) + length (non_emotional_trades example_db user0)
       = length (user_trades example_db user0)"
proof -
  have d: "distinct (map trade_pk (trade_objects example_db))"
    by (simp add: example_defs)
  have e: "emotional_trades example_db user0 = [trade1, trade3]"
    by (simp add: example_defs emotion_defs user_trades_def)
  have n: "non_emotional_trades example_db user0 = [trade2]"
    by (simp add: example_defs emotion_defs user_trades_def exclude_def)
  from emotional_partition [OF d, of user0]
  have "length (emotional_trades example_db user0) + length (non_emotional_trades example_db user0)
       = length (user_trades example_db user0)"
    by blast
  with d e n show ?thesis by blast
qed

section \<open>The mistake-frequency report\<close>

text \<open>
  The loop computes the entries that the specification describes, in catalog order, and
  never raises.
\<close>

lemma collect_stats_eq: "collect_stats ts ms = Inr (expected_stats ts ms)"
  by (induction ms) (simp_all add: expected_stats_def expected_stat_def occurrences_def Let_def)

lemma mistake_stats_eq:
  "mistake_stats db u =
     Inr (sort_reverse frequency (expected_stats (user_trades db u) (mistake_objects db)))"
  by (simp add: mistake_stats_def collect_stats_eq)

lemma occurrences_pos_iff:
  "0 < occurrences ts m \<longleftrightarrow> (\<exists>t \<in> set ts. mistake_pk m \<in> set (mistakes t))"
  by (auto simp: occurrences_def filter_mistake_def filter_empty_conv)

lemma stat_names_expected_stats:
  "stat_name ` set (expected_stats ts ms)
     = name ` {m \<in> set ms. \<exists>t \<in> set ts. mistake_pk m \<in> set (mistakes t)}"
proof -
  have "stat_name ` set (expected_stats ts ms)
          = (\<lambda>m. stat_name (expected_stat ts m)) ` {m \<in> set ms. 0 < occurrences ts m}"
    by (simp add: expected_stats_def image_image)
  also have "(\<lambda>m. stat_name (expected_stat ts m)) = name"
    by (simp add: expected_stat_def)
  finally show ?thesis
    by (simp only: occurrences_pos_iff)
qed

lemma expected_stats_frequency_pos: "s \<in> set (expected_stats ts ms) \<Longrightarrow> 0 < frequency s"
  by (auto simp: expected_stats_def expected_stat_def)

text \<open>
  Sorting with \<open>reverse=True\<close>: a permutation, in descending order of the key, that keeps
  entries with equal keys in their original order.
\<close>

lemma sort_reverse_mset [simp]: "mset (sort_reverse k xs) = mset xs"
  by (simp add: sort_reverse_def)

lemma sort_reverse_set [simp]: "set (sort_reverse k xs) = set xs"
  by (simp add: sort_reverse_def)

lemma sort_reverse_sorted: "sorted_wrt (\<lambda>a b. k b \<le> k a) (sort_reverse k xs)"
proof -
  have "sorted (map k (sort_key k (rev xs)))" by simp
  then have "sorted_wrt (\<lambda>a b. k a \<le> k b) (sort_key k (rev xs))"
    by (simp add: sorted_wrt_map)
  then show ?thesis
    by (simp add: sort_reverse_def sorted_wrt_rev)
qed

lemma sort_reverse_stable:
  "filter (\<lambda>y. k y = c) (sort_reverse k xs) = filter (\<lambda>y. k y = c) xs"
  by (simp add: sort_reverse_def rev_filter [symmetric] sort_key_stable)

lemma sort_reverse_Nil_iff [simp]: "sort_reverse k xs = [] \<longleftrightarrow> xs = []"
  by (metis mset_zero_iff sort_reverse_mset)

lemma category_avg_pnl_eq:
  "category_avg_pnl d =
     Inr (if cat_count d = 0 then 0 else cat_total_pnl d / of_nat (cat_count d))"
  by (simp add: category_avg_pnl_def)

lemma category_lines_eq:
  "category_lines xs =
     Inr (map (\<lambda>x. CategoryLine (fst x) (cat_count (snd x))
                 (if cat_count (snd x) = 0 then 0
                  else cat_total_pnl (snd x) / of_nat (cat_count (snd x)))) xs)"
  by (induction xs rule: category_lines.induct) (simp_all add: category_avg_pnl_eq)

lemma mistake_frequency_analysis_eq:
  "mistake_frequency_analysis db u =
     Inr ([Text ''  Top 10 most frequent mistakes:'']
          @ stat_lines 1 (take 10 (sort_reverse frequency
               (expected_stats (user_trades db u) (mistake_objects db))))
          @ (if expected_stats (user_trades db u) (mistake_objects db) = [] then [NoMistakes] else [])
          @ [Text ''  Mistakes by category:'']
          @ map (\<lambda>x. CategoryLine (fst x) (cat_count (snd x))
                 (if cat_count (snd x) = 0 then 0
                  else cat_total_pnl (snd x) / of_nat (cat_count (snd x))))
              (category_rollup (sort_reverse frequency
                 (expected_stats (user_trades db u) (mistake_objects db)))))"
  by (simp add: mistake_frequency_analysis_def mistake_stats_eq category_lines_eq)

text \<open>
  C5. The list \<open>mistake_stats\<close> holds exactly the entries of the catalog's mistakes that
  occur at least once, that is, that are tagged on at least one of the user's trades; it
  is in descending order of frequency; entries of equal frequency keep the order of the
  catalog. The command writes the first 10 entries, the script (for the user it looks up)
  the first 5.
\<close>

theorem mistake_frequency_list:
  "\<exists>stats.
     mistake_stats db u = Inr stats
     \<and> mset stats = mset (expected_stats (user_trades db u) (mistake_objects db))
     \<and> stat_name ` set stats
         = name ` {m \<in> set (mistake_objects db).
                    \<exists>t \<in> set (user_trades db u). mistake_pk m \<in> set (mistakes t)}
     \<and> (0 < occurrences (user_trades db u) m
          \<longleftrightarrow> (\<exists>t \<in> set (user_trades db u). mistake_pk m \<in> set (mistakes t)))
     \<and> sorted_wrt (\<lambda>a b. frequency b \<le> frequency a) stats
     \<and> (\<forall>k. filter (\<lambda>s. frequency s = k) stats
              = filter (\<lambda>s. frequency s = k)
                  (expected_stats (user_trades db u) (mistake_objects db)))
     \<and> length (take 10 stats) \<le> 10 \<and> length (take 5 stats) \<le> 5
     \<and> (\<exists>cat_lines.
           mistake_frequency_analysis db u =
             Inr ([Text ''  Top 10 most frequent mistakes:'']
                  @ stat_lines 1 (take 10 stats)
                  @ (if stats = [] then [NoMistakes] else [])
                  @ [Text ''  Mistakes by category:'']
                  @ cat_lines))
     \<and> (get_user db ''user0'' = Inr u \<longrightarrow>
          (\<exists>l1 l2.
             rule_followed_analysis db u = Inr l1 \<and> emotion_win_rate_analysis db u = Inr l2 \<and>
             script_run_analytics db =
               Inr ([Text ''=== ANALYTICS QUERIES DEMONSTRATION ==='',
                     Text (''Analyzing data for user: '' @ username u),
                     TotalTrades (length (user_trades db u)),
                     Text ''1. RULE-FOLLOWED VS RULE-BROKEN P&L ANALYSIS''] @ l1
                    @ [Text ''2. EMOTION VS WIN RATE ANALYSIS''] @ l2
                    @ [Text ''3. MISTAKE FREQUENCY ANALYSIS'',
                       Text ''  Top 5 most frequent mistakes:'']
                    @ stat_lines 1 (take 5 stats)
                    @ (if stats = [] then [NoMistakes] else [])
                    @ [Text ''Analytics queries completed!''])))"
proof -
  let ?stats = "sort_reverse frequency (expected_stats (user_trades db u) (mistake_objects db))"
  have 1: "mistake_stats db u = Inr ?stats" by (rule mistake_stats_eq)
  have 2: "mset ?stats = mset (expected_stats (user_trades db u) (mistake_objects db))"
    by simp
  have 7: "stat_name ` set ?stats
         = name ` {m \<in> set (mistake_objects db).
                    \<exists>t \<in> set (user_trades db u). mistake_pk m \<in> set (mistakes t)}"
    by (simp add: stat_names_expected_stats)
  have 3: "sorted_wrt (\<lambda>a b. frequency b \<le> frequency a) ?stats"
    by (rule sort_reverse_sorted)
  have 4: "\<forall>k. filter (\<lambda>s. frequency s = k) ?stats
              = filter (\<lambda>s. frequency s = k)
                  (expected_stats (user_trades db u) (mistake_objects db))"
    by (simp add: sort_reverse_stable)
  have 5: "\<exists>cat_lines.
           mistake_frequency_analysis db u =
             Inr ([Text ''  Top 10 most frequent mistakes:'']
                  @ stat_lines 1 (take 10 ?stats)
                  @ (if ?stats = [] then [NoMistakes] else [])
                  @ [Text ''  Mistakes by category:'']
                  @ cat_lines)"
    by (simp add: mistake_frequency_analysis_eq)
  have 6: "get_user db ''user0'' = Inr u \<longrightarrow>
          (\<exists>l1 l2.
             rule_followed_analysis db u = Inr l1 \<and> emotion_win_rate_analysis db u = Inr l2 \<and>
             script_run_analytics db =
               Inr ([Text ''=== ANALYTICS QUERIES DEMONSTRATION ==='',
                     Text (''Analyzing data for user: '' @ username u),
                     TotalTrades (length (user_trades db u)),
                     Text ''1. RULE-FOLLOWED VS RULE-BROKEN P&L ANALYSIS''] @ l1
                    @ [Text ''2. EMOTION VS WIN RATE ANALYSIS''] @ l2
                    @ [Text ''3. MISTAKE FREQUENCY ANALYSIS'',
                       Text ''  Top 5 most frequent mistakes:'']
                    @ stat_lines 1 (take 5 ?stats)
                    @ (if ?stats = [] then [NoMistakes] else [])
                    @ [Text ''Analytics queries completed!'']))"
  proof
    assume g: "get_user db ''user0'' = Inr u"
    obtain l1 where l1: "rule_followed_analysis db u = Inr l1"
      using rule_followed_analysis_eq by blast
    obtain l2 where l2: "emotion_win_rate_analysis db u = Inr l2"
      using emotion_win_rate_analysis_eq by blast
    show "\<exists>l1 l2.
             rule_followed_analysis db u = Inr l1 \<and> emotion_win_rate_analysis db u = Inr l2 \<and>
             script_run_analytics db =
               Inr ([Text ''=== ANALYTICS QUERIES DEMONSTRATION ==='',
                     Text (''Analyzing data for user: '' @ username u),
                     TotalTrades (length (user_trades db u)),
                     Text ''1. RULE-FOLLOWED VS RULE-BROKEN P&L ANALYSIS''] @ l1
                    @ [Text ''2. EMOTION VS WIN RATE ANALYSIS''] @ l2
                    @ [Text ''3. MISTAKE FREQUENCY ANALYSIS'',
                       Text ''  Top 5 most frequent mistakes:'']
                    @ stat_lines 1 (take 5 ?stats)
                    @ (if ?stats = [] then [NoMistakes] else [])
                    @ [Text ''Analytics queries completed!''])"
      by (intro exI [of _ l1] exI [of _ l2]) (simp add: script_run_analytics_def g l1 l2 1)
  qed
  show ?thesis
    using 1 2 3 4 5 6 7 occurrences_pos_iff [of "user_trades db u" m]
    by (intro exI [of _ ?stats]) simp
qed

theorem mistake_frequency_list_witness:
  "get_user example_db ''user0'' = Inr user0
   \<and> (\<exists>t \<in> set (user_trades example_db user0). mistake_pk (catalog ! 1) \<in> set (mistakes t))
   \<and> occurrences (user_trades example_db user0) (catalog ! 1) = 2
   \<and> (\<exists>stats. mistake_stats example_db user0 = Inr stats
        \<and> map stat_name stats = [''Hesitation'', ''FOMO trading'', ''Slippage'']
        \<and> map frequency stats = [2, 1, 1])"
  using mistake_frequency_list [of example_db user0 "catalog ! 1"]
  by (simp add: example_defs query_defs stats_defs get_user_def occurrences_def)

text \<open>
  The dictionary \<open>category_stats\<close>: one key for each category label among the entries,
  bound to the sums over the entries of that label.
\<close>

lemma map_of_add_stat:
  "map_of (add_stat acc s) =
     (map_of acc)(stat_category s \<mapsto>
        \<lparr>cat_count = (case map_of acc (stat_category s) of None \<Rightarrow> 0 | Some d \<Rightarrow> cat_count d) + frequency s,
         cat_total_pnl = (case map_of acc (stat_category s) of None \<Rightarrow> 0 | Some d \<Rightarrow> cat_total_pnl d) + total_pnl s\<rparr>)"
  by (rule ext) (auto simp: add_stat_def Let_def map_of_map_entry update_conv' split: option.splits)

lemma distinct_add_stat:
  "distinct (map fst acc) \<Longrightarrow> distinct (map fst (add_stat acc s))"
  by (simp add: add_stat_def Let_def distinct_map_entry distinct_update)

lemma category_stats_snoc: "category_stats (stats @ [s]) = add_stat (category_stats stats) s"
  by (simp add: category_stats_def)

lemma distinct_category_stats: "distinct (map fst (category_stats stats))"
  by (induction stats rule: rev_induct)
     (simp_all add: category_stats_snoc distinct_add_stat, simp add: category_stats_def)

lemma map_of_category_stats:
  "map_of (category_stats stats) c =
     (if c \<in> stat_category ` set stats then Some (expected_category stats c) else None)"
proof (induction stats arbitrary: c rule: rev_induct)
  case Nil
  show ?case by (simp add: category_stats_def)
next
  case (snoc s stats)
  have none: "filter (\<lambda>x. stat_category x = k) stats = []" if "k \<notin> stat_category ` set stats" for k
    using that by (auto simp: filter_empty_conv)
  show ?case
    by (auto simp: category_stats_snoc map_of_add_stat snoc expected_category_def none)
qed

lemma category_stats_entry:
  "(c, d) \<in> set (category_stats stats) \<longleftrightarrow>
     c \<in> stat_category ` set stats \<and> d = expected_category stats c"
proof -
  have "(c, d) \<in> set (category_stats stats) \<longleftrightarrow> map_of (category_stats stats) c = Some d"
    using distinct_category_stats by (simp add: map_of_eq_Some_iff)
  then show ?thesis
    by (auto simp: map_of_category_stats)
qed

lemma category_rollup_entry:
  "(c, d) \<in> set (category_rollup stats) \<longleftrightarrow>
     c \<in> stat_category ` set stats \<and> d = expected_category stats c"
  by (simp add: category_rollup_def category_stats_entry)

lemma category_rollup_sorted:
  "sorted_wrt (\<lambda>x y. cat_count (snd y) \<le> cat_count (snd x)) (category_rollup stats)"
  unfolding category_rollup_def by (rule sort_reverse_sorted)

lemma category_rollup_distinct: "distinct (map fst (category_rollup stats))"
proof -
  have "mset (map fst (category_rollup stats)) = mset (map fst (category_stats stats))"
    by (simp add: category_rollup_def)
  then show ?thesis
    using distinct_category_stats [of stats] by (metis mset_eq_imp_distinct_iff)
qed

lemma category_rollup_keys: "fst ` set (category_rollup stats) = stat_category ` set stats"
  by (auto simp: category_rollup_entry image_iff) (metis category_rollup_entry fst_conv image_eqI)

lemma expected_category_count_pos:
  assumes "\<forall>s \<in> set stats. 0 < frequency s" and "c \<in> stat_category ` set stats"
  shows "0 < cat_count (expected_category stats c)"
proof -
  from assms(2) obtain s where s: "s \<in> set stats" "stat_category s = c" by auto
  then have "s \<in> set (filter (\<lambda>s. stat_category s = c) stats)" by simp
  then have "frequency s \<in> set (map frequency (filter (\<lambda>s. stat_category s = c) stats))"
    by (simp only: set_map) (rule imageI)
  then have "frequency s \<le> sum_list (map frequency (filter (\<lambda>s. stat_category s = c) stats))"
    by (simp add: member_le_sum_list)
  with assms(1) s(1) show ?thesis
    by (auto simp: expected_category_def dest: bspec)
qed

lemma get_category_display_inj: "inj get_category_display"
proof (rule injI)
  fix a b assume "get_category_display a = get_category_display b"
  then show "a = b" by (cases a; cases b) simp_all
qed

text \<open>
  C10. Every entry of \<open>mistake_stats\<close> has a frequency of at least 1, hence every entry
  of the category roll-up has a count of at least 1: the average of a category is always
  computed by the division, never by the fallback 0, and the division does not raise.
\<close>

theorem category_count_positive:
  "\<exists>stats.
     mistake_stats db u = Inr stats
     \<and> (\<forall>s \<in> set stats. 1 \<le> frequency s)
     \<and> (\<forall>x \<in> set (category_rollup stats).
           1 \<le> cat_count (snd x)
           \<and> category_avg_pnl (snd x)
               = truediv (cat_total_pnl (snd x)) (of_nat (cat_count (snd x)))
           \<and> category_avg_pnl (snd x)
               = Inr (cat_total_pnl (snd x) / of_nat (cat_count (snd x))))"
proof -
  let ?stats = "sort_reverse frequency (expected_stats (user_trades db u) (mistake_objects db))"
  have f: "\<forall>s \<in> set ?stats. 0 < frequency s"
    by (simp add: expected_stats_frequency_pos)
  have c: "0 < cat_count (snd x)" if "x \<in> set (category_rollup ?stats)" for x
  proof -
    from that have "(fst x, snd x) \<in> set (category_rollup ?stats)" by simp
    then have "fst x \<in> stat_category ` set ?stats" and "snd x = expected_category ?stats (fst x)"
      by (simp_all only: category_rollup_entry)
    with f show ?thesis
      using expected_category_count_pos [of ?stats "fst x"] by simp
  qed
  have "\<forall>x \<in> set (category_rollup ?stats).
           1 \<le> cat_count (snd x)
           \<and> category_avg_pnl (snd x)
               = truediv (cat_total_pnl (snd x)) (of_nat (cat_count (snd x)))
           \<and> category_avg_pnl (snd x)
               = Inr (cat_total_pnl (snd x) / of_nat (cat_count (snd x)))"
  proof
    fix x assume "x \<in> set (category_rollup ?stats)"
    then have "0 < cat_count (snd x)" by (rule c)
    then show "1 \<le> cat_count (snd x)
           \<and> category_avg_pnl (snd x)
               = truediv (cat_total_pnl (snd x)) (of_nat (cat_count (snd x)))
           \<and> category_avg_pnl (snd x)
               = Inr (cat_total_pnl (snd x) / of_nat (cat_count (snd x)))"
      by (simp add: category_avg_pnl_def)
  qed
  moreover from f have "\<forall>s \<in> set ?stats. 1 \<le> frequency s"
    by (simp add: Suc_le_eq)
  ultimately show ?thesis
    using mistake_stats_eq [of db u] by blast
qed

theorem category_count_positive_witness:
  "\<exists>stats. mistake_stats example_db user0 = Inr stats
     \<and> stats \<noteq> [] \<and> category_rollup stats \<noteq> []
     \<and> (\<forall>s \<in> set stats. 1 \<le> frequency s)
     \<and> (\<forall>x \<in> set (category_rollup stats). 1 \<le> cat_count (snd x))"
  using category_count_positive [of example_db user0]
  by (auto simp add: example_defs query_defs stats_defs occurrences_def)

text \<open>
  C6. In the category roll-up, the count of a category is the sum of the frequencies of
  the entries of \<open>mistake_stats\<close> with that category, its total profit is the sum of
  their total profits, and its average is the total divided by the (positive) count. Each
  category among the entries has one roll-up entry (distinct categories have distinct
  labels), the roll-up is in descending order of count, and the report writes one line for
  each roll-up entry in that order.
\<close>

theorem category_rollup_totals:
  "\<exists>stats.
     mistake_stats db u = Inr stats
     \<and> (\<forall>x \<in> set (category_rollup stats).
           cat_count (snd x)
             = sum_list (map frequency (filter (\<lambda>s. stat_category s = fst x) stats))
           \<and> cat_total_pnl (snd x)
               = sum_list (map total_pnl (filter (\<lambda>s. stat_category s = fst x) stats))
           \<and> 0 < cat_count (snd x)
           \<and> category_avg_pnl (snd x)
               = Inr (cat_total_pnl (snd x) / of_nat (cat_count (snd x))))
     \<and> fst ` set (category_rollup stats) = stat_category ` set stats
     \<and> distinct (map fst (category_rollup stats))
     \<and> inj get_category_display
     \<and> sorted_wrt (\<lambda>x y. cat_count (snd y) \<le> cat_count (snd x)) (category_rollup stats)
     \<and> (\<exists>top.
           mistake_frequency_analysis db u =
             Inr (top @ [Text ''  Mistakes by category:'']
                  @ map (\<lambda>x. CategoryLine (fst x) (cat_count (snd x))
                               (cat_total_pnl (snd x) / of_nat (cat_count (snd x))))
                      (category_rollup stats)))"
proof -
  let ?stats = "sort_reverse frequency (expected_stats (user_trades db u) (mistake_objects db))"
  have f: "\<forall>s \<in> set ?stats. 0 < frequency s"
    by (simp add: expected_stats_frequency_pos)
  have e: "cat_count (snd x)
             = sum_list (map frequency (filter (\<lambda>s. stat_category s = fst x) ?stats))
           \<and> cat_total_pnl (snd x)
               = sum_list (map total_pnl (filter (\<lambda>s. stat_category s = fst x) ?stats))
           \<and> 0 < cat_count (snd x)
           \<and> category_avg_pnl (snd x)
               = Inr (cat_total_pnl (snd x) / of_nat (cat_count (snd x)))"
    if "x \<in> set (category_rollup ?stats)" for x
  proof -
    from that have "(fst x, snd x) \<in> set (category_rollup ?stats)" by simp
    then have k: "fst x \<in> stat_category ` set ?stats"
      and v: "snd x = expected_category ?stats (fst x)"
      by (simp_all only: category_rollup_entry)
    from f k have "0 < cat_count (expected_category ?stats (fst x))"
      by (rule expected_category_count_pos)
    with v show ?thesis
      by (simp add: category_avg_pnl_def) (simp add: expected_category_def)
  qed
  have l: "\<exists>top.
           mistake_frequency_analysis db u =
             Inr (top @ [Text ''  Mistakes by category:'']
                  @ map (\<lambda>x. CategoryLine (fst x) (cat_count (snd x))
                               (cat_total_pnl (snd x) / of_nat (cat_count (snd x))))
                      (category_rollup ?stats))"
  proof -
    have "map (\<lambda>x. CategoryLine (fst x) (cat_count (snd x))
                 (if cat_count (snd x) = 0 then 0
                  else cat_total_pnl (snd x) / of_nat (cat_count (snd x))))
              (category_rollup ?stats)
          = map (\<lambda>x. CategoryLine (fst x) (cat_count (snd x))
                               (cat_total_pnl (snd x) / of_nat (cat_count (snd x))))
                      (category_rollup ?stats)"
      by (rule map_cong) simp_all
    then show ?thesis
      unfolding mistake_frequency_analysis_eq
      by (intro exI [of _ "[Text ''  Top 10 most frequent mistakes:'']
          @ stat_lines 1 (take 10 ?stats)
          @ (if expected_stats (user_trades db u) (mistake_objects db) = [] then [NoMistakes] else [])"])
         simp
  qed
  show ?thesis
    using e l mistake_stats_eq [of db u] category_rollup_keys [of ?stats]
      category_rollup_distinct [of ?stats] category_rollup_sorted [of ?stats]
      get_category_display_inj
    by (intro exI [of _ ?stats]) blast
qed

theorem category_rollup_totals_witness:
  "\<exists>stats. mistake_stats example_db user0 = Inr stats
     \<and> category_rollup stats
         = [(''Psychology/Emotion'', \<lparr>cat_count = 3, cat_total_pnl = 400\<rparr>),
            (''Trade Execution'', \<lparr>cat_count = 1, cat_total_pnl = 100\<rparr>)]
     \<and> (\<forall>x \<in> set (category_rollup stats).
           cat_count (snd x)
             = sum_list (map frequency (filter (\<lambda>s. stat_category s = fst x) stats)))"
  using category_rollup_totals [of example_db user0]
  by (auto simp add: example_defs query_defs stats_defs occurrences_def)

section \<open>Running the reports\<close>

lemma mistake_frequency_analysis_total: "\<exists>ls. mistake_frequency_analysis db u = Inr ls"
  by (simp add: mistake_frequency_analysis_def mistake_stats_eq category_lines_eq)

lemma run_analytics_total: "\<exists>ls. run_analytics db u = Inr ls"
proof -
  obtain l3 where "mistake_frequency_analysis db u = Inr l3"
    using mistake_frequency_analysis_total by blast
  then show ?thesis
    by (simp add: run_analytics_def rule_followed_analysis_eq emotion_win_rate_analysis_eq)
qed

lemma analyze_all_total: "\<exists>ls. analyze_all db us = Inr ls"
proof (induction us)
  case Nil
  show ?case by simp
next
  case (Cons a us)
  obtain ls where "run_analytics db a = Inr ls"
    using run_analytics_total by blast
  with Cons show ?case by auto
qed

lemma get_user_cases:
  "(get_user db n = Inl DoesNotExist \<and> n \<notin> username ` set (user_objects db))
   \<or> (get_user db n = Inl MultipleObjectsReturned \<and> n \<in> username ` set (user_objects db)
       \<and> \<not> distinct (map username (user_objects db)))
   \<or> (\<exists>a. get_user db n = Inr a \<and> a \<in> set (user_objects db) \<and> username a = n
          \<and> n \<in> username ` set (user_objects db))"
proof (cases "filter (\<lambda>a. username a = n) (user_objects db)")
  case Nil
  then have "n \<notin> username ` set (user_objects db)"
    by (auto simp: filter_empty_conv)
  with Nil show ?thesis by (simp add: get_user_def)
next
  case (Cons a rest)
  then have "a \<in> set (filter (\<lambda>a. username a = n) (user_objects db))"
    by simp
  then have a: "a \<in> set (user_objects db) \<and> username a = n"
    by simp
  then have n: "n \<in> username ` set (user_objects db)"
    by blast
  show ?thesis
  proof (cases rest)
    case Nil
    with Cons a n show ?thesis by (simp add: get_user_def)
  next
    case (Cons b rest')
    with \<open>filter (\<lambda>a. username a = n) (user_objects db) = a # rest\<close>
    have f: "filter (\<lambda>a. username a = n) (user_objects db) = a # b # rest'" by simp
    then have "map username (filter (\<lambda>a. username a = n) (user_objects db))
                 = username a # username b # map username rest'" by simp
    moreover have "b \<in> set (filter (\<lambda>a. username a = n) (user_objects db))"
      by (simp add: f)
    then have "username b = n" by simp
    ultimately have "\<not> distinct (map username (filter (\<lambda>a. username a = n) (user_objects db)))"
      using a by simp
    then have "\<not> distinct (map username (user_objects db))"
      using distinct_map_filter by blast
    with f n show ?thesis by (simp add: get_user_def)
  qed
qed

lemma handle_cases:
  "(\<exists>ls. handle db opt = Inr ls)
   \<or> (handle db opt = Inl MultipleObjectsReturned \<and> \<not> distinct (map username (user_objects db)))"
proof (cases opt)
  case None
  then show ?thesis using analyze_all_total [of db "user_objects db"] by (auto simp: handle_def)
next
  case (Some uname)
  show ?thesis
  proof (cases "uname = []")
    case True
    with Some show ?thesis
      using analyze_all_total [of db "user_objects db"] by (auto simp: handle_def)
  next
    case False
    from get_user_cases [of db uname] show ?thesis
    proof (elim disjE conjE exE)
      assume "get_user db uname = Inl DoesNotExist"
      with Some False show ?thesis by (simp add: handle_def)
    next
      assume "get_user db uname = Inl MultipleObjectsReturned"
        and "\<not> distinct (map username (user_objects db))"
        and "uname \<in> username ` set (user_objects db)"
      with Some False show ?thesis by (simp add: handle_def)
    next
      fix a assume g: "get_user db uname = Inr a"
      obtain ls where "run_analytics db a = Inr ls"
        using run_analytics_total by blast
      with g Some False show ?thesis by (simp add: handle_def)
    qed
  qed
qed

lemma handle_not_found:
  "uname \<noteq> [] \<Longrightarrow> uname \<notin> username ` set (user_objects db) \<Longrightarrow>
     handle db (Some uname) = Inr [UserNotFound uname]"
  using get_user_cases [of db uname] by (auto simp: handle_def)

lemma script_run_analytics_cases:
  "(script_run_analytics db = Inl DoesNotExist \<and> ''user0'' \<notin> username ` set (user_objects db))
   \<or> (script_run_analytics db = Inl MultipleObjectsReturned
       \<and> \<not> distinct (map username (user_objects db)))
   \<or> (\<exists>ls. script_run_analytics db = Inr ls \<and> ''user0'' \<in> username ` set (user_objects db))"
  using get_user_cases [of db "''user0''"]
  by (auto simp: script_run_analytics_def rule_followed_analysis_eq
        emotion_win_rate_analysis_eq mistake_stats_eq)

text \<open>
  C3, as the code has it. No division raises on a zero denominator. The rule-compliance
  report writes its average line exactly when there is a closed trade and its compliance
  line exactly when the user has a trade: with a zero denominator the line is left out,
  and no 0 is written. A win rate over no closed trade is 0. The loop over the mistakes
  never raises, and the average of a mistake that occurs only on trades that are not
  closed is 0. No report, and neither the command nor the script, raises
  \<open>ZeroDivisionError\<close>.
\<close>

theorem zero_denominators_guarded:
  "(\<exists>ls. rule_followed_analysis db u = Inr ls
         \<and> ((\<exists>avg. AverageClosedPnl avg \<in> set ls) \<longleftrightarrow> closed_of (user_trades db u) \<noteq> [])
         \<and> ((\<exists>rate. ComplianceRate rate \<in> set ls) \<longleftrightarrow> user_trades db u \<noteq> []))
   \<and> win_rate wins 0 = Inr 0
   \<and> (\<exists>ls. emotion_win_rate_analysis db u = Inr ls)
   \<and> (\<exists>stats. collect_stats ts ms = Inr stats)
   \<and> (0 < occurrences ts m \<and> closed_of (filter_mistake m ts) = [] \<longrightarrow>
        (\<exists>s. collect_stats ts [m] = Inr [s] \<and> stat_name s = name m \<and> avg_pnl s = 0))
   \<and> (\<exists>ls. mistake_frequency_analysis db u = Inr ls)
   \<and> (\<exists>ls. run_analytics db u = Inr ls)
   \<and> handle db opt \<noteq> Inl ZeroDivisionError
   \<and> script_run_analytics db \<noteq> Inl ZeroDivisionError"
proof -
  have r: "\<exists>ls. rule_followed_analysis db u = Inr ls
         \<and> ((\<exists>avg. AverageClosedPnl avg \<in> set ls) \<longleftrightarrow> closed_of (user_trades db u) \<noteq> [])
         \<and> ((\<exists>rate. ComplianceRate rate \<in> set ls) \<longleftrightarrow> user_trades db u \<noteq> [])"
    by (simp add: rule_followed_analysis_eq)
  have w: "win_rate wins 0 = Inr 0"
    by (simp add: win_rate_def)
  have e: "\<exists>ls. emotion_win_rate_analysis db u = Inr ls"
    by (simp add: emotion_win_rate_analysis_eq)
  have c: "\<exists>stats. collect_stats ts ms = Inr stats"
    by (simp add: collect_stats_eq)
  have m: "0 < occurrences ts m \<and> closed_of (filter_mistake m ts) = [] \<longrightarrow>
        (\<exists>s. collect_stats ts [m] = Inr [s] \<and> stat_name s = name m \<and> avg_pnl s = 0)"
    by (simp add: collect_stats_eq expected_stats_def expected_stat_def)
  have h: "handle db opt \<noteq> Inl ZeroDivisionError"
    using handle_cases [of db opt] by auto
  have s: "script_run_analytics db \<noteq> Inl ZeroDivisionError"
    using script_run_analytics_cases [of db] by auto
  show ?thesis
    using r w e c m h s mistake_frequency_analysis_total [of db u] run_analytics_total [of db u]
    by blast
qed

theorem zero_denominators_guarded_witness:
  "0 < occurrences [trade3] (catalog ! 1) \<and> closed_of (filter_mistake (catalog ! 1) [trade3]) = []
   \<and> (\<exists>s. collect_stats [trade3] [catalog ! 1] = Inr [s] \<and> stat_name s = ''Hesitation''
            \<and> avg_pnl s = 0)
   \<and> (\<exists>ls. run_analytics empty_db user0 = Inr ls)"
  using zero_denominators_guarded [of empty_db user0 0 "[trade3]" "[]" "catalog ! 1" None]
  by (simp add: example_defs occurrences_def filter_mistake_def closed_of_def exclude_def)

text \<open>
  For a user without trades the rule-compliance report writes the two count lines only:
  neither an average of 0 nor a compliance rate of 0.
\<close>

theorem empty_report_counterexample:
  "rule_followed_analysis empty_db user0 = Inr [ClosedTrades 0 0, OpenTrades 0 0]
   \<and> AverageClosedPnl 0 \<notin> set [ClosedTrades 0 0, OpenTrades 0 0]
   \<and> ComplianceRate 0 \<notin> set [ClosedTrades 0 0, OpenTrades 0 0]"
  by (simp add: example_defs query_defs rule_followed_analysis_def)

text \<open>
  Which runs raise. Let the user names be distinct. When the command is run for a
  non-empty name that no user has, it writes the error line and nothing else, and does
  not raise. The command never raises, whatever the option; the three reports never
  raise, whatever the user, the trades and the catalog. The script raises
  \<open>DoesNotExist\<close> when its fixed user is missing, and completes otherwise.
\<close>

lemma command_and_script_failures:
  assumes "distinct (map username (user_objects db))"
  shows "(uname \<noteq> [] \<and> uname \<notin> username ` set (user_objects db) \<longrightarrow>
            handle db (Some uname) = Inr [UserNotFound uname])
         \<and> (\<exists>ls. handle db opt = Inr ls)
         \<and> (\<exists>ls. run_analytics db u = Inr ls)
         \<and> (''user0'' \<notin> username ` set (user_objects db) \<longrightarrow>
              script_run_analytics db = Inl DoesNotExist)
         \<and> (''user0'' \<in> username ` set (user_objects db) \<longrightarrow>
              (\<exists>ls. script_run_analytics db = Inr ls))"
  using assms handle_not_found [of uname db] handle_cases [of db opt]
    run_analytics_total [of db u] script_run_analytics_cases [of db]
  by auto

text \<open>
  C9. A lookup of a user who does not exist should end in an error line and no report,
  without an exception leaving the run. In a database without \<open>user0\<close> the command, run
  for that name, does so: its \<open>except User.DoesNotExist\<close> writes the error line. The
  script looks the same user up outside any \<open>try\<close>: \<open>DoesNotExist\<close> leaves it uncaught
  and no line is written.
\<close>

theorem script_lookup_uncaught:
  "''user0'' \<notin> username ` set (user_objects no_user0_db)
   \<and> handle no_user0_db (Some ''user0'') = Inr [UserNotFound ''user0'']
   \<and> script_run_analytics no_user0_db = Inl DoesNotExist"
  by (simp add: example_defs handle_def script_run_analytics_def get_user_def)

end
